theory Spec2Isabelle
  imports Complex_Main "HOL-Library.Word"
begin

unbundle bit_operations_syntax

section \<open>The integer-keyed hash table (src/hashtable.c)\<close>

text \<open>
  Keys are \<open>uint64_t\<close>, values are \<open>void *\<close> (a 64-bit address, \<open>NULL\<close> is 0),
  \<open>size_t\<close> is 64 bits wide. The table is addressed through a non-null
  \<open>hash_table_ref\<close>; the guard \<open>if (!ref) { errno = EINVAL; return; }\<close> of each
  routine is the only code on a null reference and is not part of the model. The
  \<open>hasher\<close> field is used by the \<open>_implicit\<close> wrappers only.
\<close>

type_synonym uint64_t = "64 word"
type_synonym size_t = "64 word"
type_synonym void_ptr = "64 word"

record hash_table_entry =
  valid :: bool
  key :: uint64_t
  value' :: void_ptr

definition hash_table_invalid_entry :: hash_table_entry where
  "hash_table_invalid_entry = \<lparr>valid = False, key = 0, value' = 0\<rparr>"

text \<open>\<open>base\<close> is \<open>None\<close> for the \<open>NULL\<close> pointer, otherwise the array it points to.\<close>

record hash_table =
  count :: size_t
  len :: size_t
  base :: "hash_table_entry list option"

text \<open>\<open>sizeof(hash_table_entry)\<close> on an LP64 target: a padded bool and two 8-byte fields.\<close>

definition sizeof_hash_table_entry :: size_t where
  "sizeof_hash_table_entry = 24"

definition UINT64_MAX :: uint64_t where
  "UINT64_MAX = - 1"

definition hash_table_create :: hash_table where
  "hash_table_create = \<lparr>count = 0, len = 0, base = None\<rparr>"

definition hash_key :: "uint64_t \<Rightarrow> uint64_t" where
  "hash_key key0 =
     (let key1 = (drop_bit 16 key0 XOR key0) * 0x45d9f3b;
          key2 = (drop_bit 16 key1 XOR key1) * 0x45d9f3b
      in drop_bit 16 key2 XOR key2)"

definition hash_table_num_slots :: "hash_table \<Rightarrow> uint64_t" where
  "hash_table_num_slots ref = len ref div sizeof_hash_table_entry"

definition hash_table_map_key :: "hash_table \<Rightarrow> uint64_t \<Rightarrow> uint64_t" where
  "hash_table_map_key ref k = hash_key k mod hash_table_num_slots ref"

text \<open>
  The loop of \<open>hash_table_rehash\<close> copies every valid entry of the old array to its
  home slot in the new array, in index order, without probing.
\<close>

definition hash_table_rehash :: "hash_table \<Rightarrow> hash_table_entry list \<Rightarrow> hash_table" where
  "hash_table_rehash ref old_base =
     (case base ref of
        None \<Rightarrow> ref
      | Some b \<Rightarrow>
          let entries = hash_table_num_slots ref div 2
          in ref\<lparr>base := Some (foldl
                (\<lambda>nb ent. if valid ent
                            then nb[unat (hash_table_map_key ref (key ent)) := ent]
                            else nb)
                b (take (unat entries) old_base))\<rparr>)"

text \<open>
  \<open>REHASH_FACTOR\<close> is a macro of hashtable.h; it is the parameter \<open>rf\<close> here. The
  comparison is made in \<open>double\<close>, which is exact on the sizes a table can reach.
\<close>

definition hash_table_unforced_grow :: "real \<Rightarrow> hash_table \<Rightarrow> hash_table" where
  "hash_table_unforced_grow rf ref0 =
     (let ref = (if base ref0 = None
                 then ref0\<lparr>base := Some [hash_table_invalid_entry],
                           len := sizeof_hash_table_entry\<rparr>
                 else ref0);
          fill = count ref * sizeof_hash_table_entry;
          filld = real (unat fill)
      in if filld \<ge> real (unat (len ref)) * rf
         then
           (let old_len = len ref;
                new_len = 2 * old_len;
                old_base = (case base ref of None \<Rightarrow> [] | Some b \<Rightarrow> b);
                new_base = replicate (unat (new_len div sizeof_hash_table_entry))
                             hash_table_invalid_entry
            in hash_table_rehash (ref\<lparr>len := len ref * 2, base := Some new_base\<rparr>) old_base)
         else ref)"

text \<open>
  The probing loops run until they meet an invalid slot or the key. On a table whose
  slots are all valid and hold other keys they never leave the loop; a read outside
  the array is a fault. Both are the result \<open>None\<close>: the call does not return.
\<close>

partial_function (option) probe_get_loop ::
    "hash_table_entry list \<Rightarrow> uint64_t \<Rightarrow> uint64_t \<Rightarrow> uint64_t \<Rightarrow> uint64_t option" where
  "probe_get_loop b num_ents k best_match =
     (if unat best_match < length b
      then (if valid (b ! unat best_match)
            then (if key (b ! unat best_match) = k
                  then Some best_match
                  else probe_get_loop b num_ents k ((best_match + 1) mod num_ents))
            else Some UINT64_MAX)
      else None)"

definition hash_table_probe_get :: "hash_table \<Rightarrow> uint64_t \<Rightarrow> uint64_t option" where
  "hash_table_probe_get ref k =
     (let best_match = hash_table_map_key ref k
      in if count ref = 0 then Some best_match
         else (case base ref of
                 None \<Rightarrow> None
               | Some b \<Rightarrow> probe_get_loop b (hash_table_num_slots ref) k best_match))"

text \<open>The result of \<open>hash_table_probe_set\<close> is the slot and the flag \<open>*replace\<close>.\<close>

partial_function (option) probe_set_loop ::
    "hash_table_entry list \<Rightarrow> uint64_t \<Rightarrow> uint64_t \<Rightarrow> uint64_t \<Rightarrow> (uint64_t \<times> bool) option" where
  "probe_set_loop b num_ents k best_match =
     (if unat best_match < length b
      then (if valid (b ! unat best_match)
            then (if key (b ! unat best_match) = k
                  then Some (best_match, True)
                  else probe_set_loop b num_ents k ((best_match + 1) mod num_ents))
            else Some (best_match, False))
      else None)"

definition hash_table_probe_set ::
    "hash_table \<Rightarrow> uint64_t \<Rightarrow> bool \<Rightarrow> (uint64_t \<times> bool) option" where
  "hash_table_probe_set ref k replace =
     (let best_match = hash_table_map_key ref k
      in if count ref = 0 then Some (best_match, replace)
         else (case base ref of
                 None \<Rightarrow> None
               | Some b \<Rightarrow> probe_set_loop b (hash_table_num_slots ref) k best_match))"

definition hash_table_count :: "hash_table \<Rightarrow> size_t" where
  "hash_table_count ref = count ref"

definition hash_table_get :: "hash_table \<Rightarrow> uint64_t \<Rightarrow> void_ptr option" where
  "hash_table_get ref k =
     (case base ref of
        None \<Rightarrow> Some 0
      | Some b \<Rightarrow>
          (case hash_table_probe_get ref k of
             None \<Rightarrow> None
           | Some dest \<Rightarrow>
               if dest = UINT64_MAX then Some 0
               else if unat dest < length b then Some (value' (b ! unat dest))
               else None))"

definition hash_table_set ::
    "real \<Rightarrow> hash_table \<Rightarrow> uint64_t \<Rightarrow> void_ptr \<Rightarrow> hash_table option" where
  "hash_table_set rf ref0 k v =
     (let ref = hash_table_unforced_grow rf ref0
      in case hash_table_probe_set ref k False of
           None \<Rightarrow> None
         | Some (dest, replace) \<Rightarrow>
             (case base ref of
                None \<Rightarrow> None
              | Some b \<Rightarrow>
                  if unat dest < length b
                  then Some (ref\<lparr>base := Some (b[unat dest := \<lparr>valid = True, key = k, value' = v\<rparr>]),
                                 count := (if replace then count ref else count ref + 1)\<rparr>)
                  else None))"

text \<open>
  \<open>hash_table_remove\<close> leaves without a \<open>return\<close> statement; only its effect on
  the table is modelled. With \<open>base = NULL\<close> it returns at once. The index it writes
  to is below the number of slots, which is the length of the array on every table the
  routines above build.
\<close>

definition hash_table_remove :: "hash_table \<Rightarrow> uint64_t \<Rightarrow> hash_table" where
  "hash_table_remove ref k =
     (case base ref of
        None \<Rightarrow> ref
      | Some b \<Rightarrow>
          let index = hash_table_map_key ref k
          in ref\<lparr>base := Some (b[unat index := hash_table_invalid_entry]),
                 count := count ref - 1\<rparr>)"


subsection \<open>The tables reached by inserting the keys 3 and 4\<close>

text \<open>
  The keys 3 and 4 hash to the same slot of a table of two slots and of a table of four
  slots. These are the tables after \<open>set(3, v1)\<close> on a new table, after \<open>set(4, v2)\<close>
  on that one, after \<open>remove(4)\<close> on the second, and after \<open>set(4, v3)\<close> on the second.
\<close>

definition table_3 :: "void_ptr \<Rightarrow> hash_table" where
  "table_3 v1 =
     \<lparr>count = 1, len = 24, base = Some [\<lparr>valid = True, key = 3, value' = v1\<rparr>]\<rparr>"

definition table_3_4 :: "void_ptr \<Rightarrow> void_ptr \<Rightarrow> hash_table" where
  "table_3_4 v1 v2 =
     \<lparr>count = 2, len = 48,
      base = Some [\<lparr>valid = True, key = 4, value' = v2\<rparr>, \<lparr>valid = True, key = 3, value' = v1\<rparr>]\<rparr>"

definition table_3_4_without_4 :: "void_ptr \<Rightarrow> hash_table" where
  "table_3_4_without_4 v2 =
     \<lparr>count = 1, len = 48,
      base = Some [\<lparr>valid = True, key = 4, value' = v2\<rparr>, hash_table_invalid_entry]\<rparr>"

definition table_3_4_4 :: "void_ptr \<Rightarrow> void_ptr \<Rightarrow> hash_table" where
  "table_3_4_4 v1 v3 =
     \<lparr>count = 3, len = 96,
      base = Some [hash_table_invalid_entry, \<lparr>valid = True, key = 3, value' = v1\<rparr>,
                   \<lparr>valid = True, key = 4, value' = v3\<rparr>, hash_table_invalid_entry]\<rparr>"

section \<open>Thread operations of the C prototype (src/thread.c)\<close>

text \<open>
  The fields of \<open>struct thread\<close> are those \<open>thread_create\<close> and \<open>thread_copy\<close>
  assign. A \<open>thread_operation_refc\<close> or \<open>thread_refc\<close> argument may be \<open>NULL\<close>,
  which is \<open>None\<close>.
\<close>

record thread =
  is_alive :: bool
  start_routine :: void_ptr
  arg :: void_ptr
  owner :: uint64_t

datatype thread_operation_type =
  THREAD_START | THREAD_CREATE | THREAD_JOIN | THREAD_FINISH | THREAD_TERMINATE_PROCESS

record thread_operation =
  type :: thread_operation_type
  thread :: thread

definition thread_operation_enabled :: "thread_operation option \<Rightarrow> thread option \<Rightarrow> bool" where
  "thread_operation_enabled top' thread' =
     (case top' of
        None \<Rightarrow> False
      | Some top1 \<Rightarrow>
          (case thread' of
             None \<Rightarrow> False
           | Some thread1 \<Rightarrow>
               (case type top1 of
                  THREAD_JOIN \<Rightarrow> \<not> is_alive (thread top1)
                | THREAD_FINISH \<Rightarrow> False
                | _ \<Rightarrow> True)))"

section \<open>The address map and the coordinator (src/docs/design)\<close>

text \<open>
  Modelled from the spec: \<open>model::state::objid_t\<close> and \<open>model::invalid_objid\<close> are
  declared in headers that are not part of the sources; an object ID is an integer and
  "a distinguished invalid ID denotes absence".
\<close>

datatype objid_t = invalid_objid | objid nat

type_synonym runner_id_t = nat
type_synonym remote_address = "64 word"

text \<open>The state an object is first observed in (\<open>objects::mutex\<close>, \<open>objects::thread\<close>).\<close>

datatype mutex_state = uninitialized | unlocked | locked
datatype thread_state = embryo | running | sleeping | exited
datatype visible_object_state = mutex mutex_state | thread_object thread_state

text \<open>
  \<open>model_to_system_map\<close> is a view of the coordinator; the routines below touch only
  the coordinator's \<open>system_address_mapping\<close>, which is what the type stands for.
\<close>

type_synonym model_to_system_map = "remote_address \<rightharpoonup> objid_t"

definition get_object_for_remote_process_handle ::
    "model_to_system_map \<Rightarrow> remote_address \<Rightarrow> objid_t" where
  "get_object_for_remote_process_handle m handle =
     (case m handle of Some i \<Rightarrow> i | None \<Rightarrow> invalid_objid)"

text \<open>
  The result is the returned ID and the map after the call. The branch for a new
  address ends in \<open>return model::invalid_objid\<close> below a TODO comment and stores
  nothing.
\<close>

definition observe_remote_process_handle ::
    "model_to_system_map \<Rightarrow> remote_address \<Rightarrow> visible_object_state
       \<Rightarrow> objid_t \<times> model_to_system_map" where
  "observe_remote_process_handle m remote_process_visible_object_handle fallback_initial_state =
     (let existing_obj = get_object_for_remote_process_handle m remote_process_visible_object_handle
      in if existing_obj \<noteq> invalid_objid then (existing_obj, m)
         else (invalid_objid, m))"

text \<open>
  model_to_system_map.hpp declares these routines as \<open>get_model_of\<close>, \<open>contains\<close>
  and \<open>observe_object\<close>; the callbacks call them by these names.
\<close>

definition get_model_of :: "model_to_system_map \<Rightarrow> remote_address \<Rightarrow> objid_t" where
  "get_model_of m addr = get_object_for_remote_process_handle m addr"

definition contains :: "model_to_system_map \<Rightarrow> remote_address \<Rightarrow> bool" where
  "contains m addr = (get_model_of m addr \<noteq> invalid_objid)"

definition observe_object ::
    "model_to_system_map \<Rightarrow> remote_address \<Rightarrow> visible_object_state
       \<Rightarrow> objid_t \<times> model_to_system_map" where
  "observe_object m addr s = observe_remote_process_handle m addr s"

subsection \<open>Mailboxes, exceptions and transition callbacks\<close>

text \<open>\<open>cnts\<close> is the fixed-size byte array of the mailbox, read by index.\<close>

record runner_mailbox =
  cnts :: "nat \<Rightarrow> 8 word"

datatype exception =
  execution_exception string
| undefined_behavior_exception string

datatype transition =
  mutex_init runner_id_t objid_t
| mutex_lock runner_id_t objid_t
| mutex_unlock runner_id_t objid_t
| thread_create runner_id_t runner_id_t
| thread_start runner_id_t
| thread_exit runner_id_t
| thread_join runner_id_t runner_id_t

text \<open>
  \<open>memcpy_v(&remote_mut, rmb.cnts, sizeof(pthread_mutex_t*))\<close>: the first eight
  bytes of the mailbox, read as a little-endian address.
\<close>

definition memcpy_v_ptr :: "(nat \<Rightarrow> 8 word) \<Rightarrow> remote_address" where
  "memcpy_v_ptr src = foldr (\<lambda>i acc. ucast (src i) + 256 * acc) [0..<8] 0"

text \<open>
  A callback returns a pointer to a new transition (\<open>None\<close> is the null pointer) or
  throws; it works on the address map by reference, so the map after the call is part
  of the result.
\<close>

type_synonym callback_result = "(exception + transition option) \<times> model_to_system_map"

definition mutex_init_callback ::
    "runner_id_t \<Rightarrow> runner_mailbox \<Rightarrow> model_to_system_map \<Rightarrow> callback_result" where
  "mutex_init_callback p rmb m =
     (let remote_mut = memcpy_v_ptr (cnts rmb);
          m1 = (if \<not> contains m remote_mut
                then snd (observe_object m remote_mut (mutex uninitialized))
                else m);
          mut = get_model_of m1 remote_mut
      in (Inr (Some (mutex_init p mut)), m1))"

definition mutex_lock_callback ::
    "runner_id_t \<Rightarrow> runner_mailbox \<Rightarrow> model_to_system_map \<Rightarrow> callback_result" where
  "mutex_lock_callback p rmb m =
     (let remote_mut = memcpy_v_ptr (cnts rmb)
      in if \<not> contains m remote_mut
         then (Inl (undefined_behavior_exception ''Attempting to lock an uninitialized mutex''), m)
         else (let mut = get_model_of m remote_mut
               in (Inr (Some (mutex_lock p mut)), m)))"

definition mutex_unlock_callback ::
    "runner_id_t \<Rightarrow> runner_mailbox \<Rightarrow> model_to_system_map \<Rightarrow> callback_result" where
  "mutex_unlock_callback p rmb m =
     (let remote_mut = memcpy_v_ptr (cnts rmb)
      in if \<not> contains m remote_mut
         then (Inl (undefined_behavior_exception ''Attempting to lock an uninitialized mutex''), m)
         else (let mut = get_model_of m remote_mut
               in (Inr (Some (mutex_unlock p mut)), m)))"


subsection \<open>coordinator::execute_runner\<close>







subsection \<open>A coordinator with a live child and two registered callbacks\<close>






section \<open>The initial program model (src/dmtcp/src/mcmini/mcmini.cpp, do_model_checking)\<close>

text \<open>
  Modelled from the spec: \<open>detached_state\<close>, \<open>pending_transitions\<close> and \<open>program\<close>
  are declared in headers that are not part of the sources. Object IDs are dense and
  assigned in order of first observation; every runner is a visible object and has a
  dense runner ID of its own; \<open>add-runner\<close> appends; the pending transitions map each
  runner to the one transition it runs next; a new program has an empty trace.
\<close>

record detached_state =
  visible_objects :: "visible_object_state list"
  runner_to_obj_map :: "nat list"

definition detached_state_empty :: detached_state where
  "detached_state_empty = \<lparr>visible_objects = [], runner_to_obj_map = []\<rparr>"

definition add_object :: "detached_state \<Rightarrow> visible_object_state \<Rightarrow> nat \<times> detached_state" where
  "add_object s initial_state =
     (length (visible_objects s), s\<lparr>visible_objects := visible_objects s @ [initial_state]\<rparr>)"

definition add_runner :: "detached_state \<Rightarrow> visible_object_state \<Rightarrow> runner_id_t \<times> detached_state" where
  "add_runner s initial_state =
     (let (id, s1) = add_object s initial_state
      in (length (runner_to_obj_map s1), s1\<lparr>runner_to_obj_map := runner_to_obj_map s1 @ [id]\<rparr>))"

type_synonym pending_transitions = "runner_id_t \<rightharpoonup> transition"

fun get_executor :: "transition \<Rightarrow> runner_id_t" where
  "get_executor (mutex_init p _) = p"
| "get_executor (mutex_lock p _) = p"
| "get_executor (mutex_unlock p _) = p"
| "get_executor (thread_create p _) = p"
| "get_executor (thread_start p) = p"
| "get_executor (thread_exit p) = p"
| "get_executor (thread_join p _) = p"

definition set_transition :: "pending_transitions \<Rightarrow> transition \<Rightarrow> pending_transitions" where
  "set_transition pt t = pt(get_executor t \<mapsto> t)"

record program =
  state_seq :: detached_state
  trace :: "transition list"
  next_steps :: pending_transitions

definition program_of :: "detached_state \<Rightarrow> pending_transitions \<Rightarrow> program" where
  "program_of initial_state initial_first_steps =
     \<lparr>state_seq = initial_state, trace = [], next_steps = initial_first_steps\<rparr>"

text \<open>The statements of \<open>do_model_checking\<close> that build the model handed to the coordinator.\<close>

definition model_for_program_starting_at_main :: program where
  "model_for_program_starting_at_main =
     (let state_of_program_at_main = detached_state_empty;
          initial_first_steps = Map.empty;
          (main_thread_id, state_of_program_at_main) =
             add_runner state_of_program_at_main (thread_object running);
          initial_first_steps = set_transition initial_first_steps (thread_start main_thread_id)
      in program_of state_of_program_at_main initial_first_steps)"

text \<open>The object IDs that no runner owns.\<close>

definition non_runner_objects :: "detached_state \<Rightarrow> nat list" where
  "non_runner_objects s =
     filter (\<lambda>id. id \<notin> set (runner_to_obj_map s)) [0..<length (visible_objects s)]"

section \<open>The command line (src/dmtcp/src/mcmini/mcmini.cpp, main_cpp)\<close>

text \<open>
  The fields of \<open>model::config\<close> that \<open>main_cpp\<close> assigns; its defaults are set in a
  header that is not part of the sources, so the initial configuration is a parameter.
\<close>

record config =
  max_thread_execution_depth :: nat
  record_target_executable_only :: bool
  checkpoint_period :: nat
  stop_at_first_deadlock :: bool
  target_trace_id :: nat
  target_executable :: string

datatype stream = stdout | stderr

text \<open>
  How the run leaves the lines 183 to 252: by \<open>exit(code)\<close> after writing some text,
  by reading \<open>argv\<close> at its terminating null pointer or behind it (undefined in C, the
  string functions are handed a null pointer), or by going on to line 254 with the
  configuration and the remaining arguments, the first of which is the target.
\<close>

datatype main_result =
  Exit nat "(stream \<times> string) list"
| Undefined_read
| Continue config "string list"

text \<open>\<open>s[i]\<close> of a C string: the terminating NUL stands at index \<open>strlen(s)\<close>.\<close>

definition char_at :: "string \<Rightarrow> nat \<Rightarrow> char" where
  "char_at s i = (if i < length s then s ! i else CHR 0x00)"

definition isdigit :: "char \<Rightarrow> bool" where
  "isdigit c = (c \<in> set ''0123456789'')"

definition usage_text :: string where
  "usage_text =
     ''Usage: mcmini (experimental)'' @ [CHR 0x0A] @
     ''              [--record|-r <seconds>] '' @ [CHR 0x0A] @
     ''              [--max-depth-per-thread|-m <num>]'' @ [CHR 0x0A] @
     ''              [--first-deadlock|--first|-f]'' @ [CHR 0x0A] @
     ''              [--help|-h]'' @ [CHR 0x0A] @
     ''              target_executable'' @ [CHR 0x0A]"

definition missing_target_text :: string where
  "missing_target_text =
     ''*** Missing target_executable or no such file.'' @ [CHR 0x0A, CHR 0x0A]"

text \<open>
  The option loop. \<open>cur_arg\<close> is the list of the arguments not yet read; \<open>cur_arg[0]\<close>
  is \<open>NULL\<close> when the list is empty. \<open>strtoul\<close> and \<open>strtol\<close> are the C library's:
  \<open>strtoul s\<close> is the value read from \<open>s\<close>, and \<open>strtol s\<close> is the value together
  with the rest of \<open>s\<close> from \<open>endptr\<close> on.
\<close>

fun option_loop ::
    "(string \<Rightarrow> nat) \<Rightarrow> (string \<Rightarrow> int \<times> string) \<Rightarrow> config \<Rightarrow> string list \<Rightarrow> main_result" where
  "option_loop strtoul strtol mcmini_config [] = Continue mcmini_config []"
| "option_loop strtoul strtol mcmini_config (a # rest) =
     (if char_at a 0 \<noteq> CHR ''-'' then Continue mcmini_config (a # rest)
      else if a = ''--max-depth-per-thread'' \<or> a = ''-m'' then
        (case rest of
           [] \<Rightarrow> Undefined_read
         | v # rest' \<Rightarrow>
             if fst (strtol v) = 0 \<or> snd (strtol v) \<noteq> []
             then Exit 1 [(stderr, ''--max-depth-per-thread: illegal value'' @ [CHR 0x0A])]
             else option_loop strtoul strtol
                    (mcmini_config\<lparr>max_thread_execution_depth := strtoul v\<rparr>) rest')
      else if a = ''--record'' \<or> a = ''-r'' then
        (case rest of
           [] \<Rightarrow> Undefined_read
         | v # rest' \<Rightarrow>
             option_loop strtoul strtol
               (mcmini_config\<lparr>record_target_executable_only := True,
                              checkpoint_period := strtoul v\<rparr>) rest')
      else if char_at a 1 = CHR ''m'' \<and> isdigit (char_at a 2) then
        (case rest of
           [] \<Rightarrow> Undefined_read
         | v # _ \<Rightarrow>
             option_loop strtoul strtol
               (mcmini_config\<lparr>max_thread_execution_depth := strtoul v\<rparr>) rest)
      else if a = ''--first-deadlock'' \<or> a = ''--first'' \<or> a = ''-f'' then
        option_loop strtoul strtol (mcmini_config\<lparr>stop_at_first_deadlock := True\<rparr>) rest
      else if a = ''--print-at-traceId'' \<or> a = ''-p'' then
        (case rest of
           [] \<Rightarrow> Undefined_read
         | v # rest' \<Rightarrow>
             if fst (strtol v) = 0 \<or> snd (strtol v) \<noteq> []
             then Exit 1 [(stderr, ''--print-at-traceId: illegal value'' @ [CHR 0x0A])]
             else option_loop strtoul strtol
                    (mcmini_config\<lparr>target_trace_id := strtoul v\<rparr>) rest')
      else if char_at a 1 = CHR ''p'' \<and> isdigit (char_at a 2) then
        (case rest of
           _ # v # _ \<Rightarrow>
             option_loop strtoul strtol (mcmini_config\<lparr>target_trace_id := strtoul v\<rparr>) rest
         | _ \<Rightarrow> Undefined_read)
      else if a = ''--help'' \<or> a = ''-h'' then Exit 1 [(stderr, usage_text)]
      else Exit 1 [(stdout, ''mcmini: unrecognized option: '' @ a @ [CHR 0x0A])])"

declare option_loop.simps [simp del]

text \<open>
  The check below the loop; \<open>stat\<close> tells whether \<open>stat(2)\<close> succeeds on a path.
\<close>

definition target_check :: "(string \<Rightarrow> bool) \<Rightarrow> main_result \<Rightarrow> main_result" where
  "target_check stat r =
     (case r of
        Continue mcmini_config cur_arg \<Rightarrow>
          (case cur_arg of
             [] \<Rightarrow> Exit 1 [(stderr, missing_target_text)]
           | target # _ \<Rightarrow>
               if \<not> stat target then Exit 1 [(stderr, missing_target_text)]
               else Continue mcmini_config cur_arg)
      | _ \<Rightarrow> r)"

text \<open>
  \<open>args\<close> is \<open>argv\<close> without the program name, so \<open>argc == 1\<close> is the empty list; in
  that case the code writes \<open>"--help"\<close> into the argument vector before the loop.
\<close>

definition main_cpp ::
    "(string \<Rightarrow> bool) \<Rightarrow> (string \<Rightarrow> nat) \<Rightarrow> (string \<Rightarrow> int \<times> string) \<Rightarrow> config
       \<Rightarrow> string list \<Rightarrow> main_result" where
  "main_cpp stat strtoul strtol mcmini_config args =
     (let cur_arg = (if args = [] then [''--help''] else args)
      in target_check stat (option_loop strtoul strtol mcmini_config cur_arg))"

subsection \<open>An environment without files\<close>

text \<open>
  A file system on which \<open>stat\<close> fails for every path, number parsers that read
  nothing, and a configuration with every field cleared.
\<close>

definition no_such_file :: "string \<Rightarrow> bool" where
  "no_such_file path = False"

definition strtoul_zero :: "string \<Rightarrow> nat" where
  "strtoul_zero s = 0"

definition strtol_zero :: "string \<Rightarrow> int \<times> string" where
  "strtol_zero s = (0, s)"

definition config_default :: config where
  "config_default = \<lparr>max_thread_execution_depth = 0, record_target_executable_only = False,
     checkpoint_period = 0, stop_at_first_deadlock = False, target_trace_id = 0, target_executable = []\<rparr>"

section \<open>Condition-variable enqueue (src/src/transitions/cond/MCCondEnqueue.cpp)\<close>

text \<open>
  Modelled from the spec: the classes of the visible objects (\<open>MCMutex\<close>,
  \<open>MCConditionVariable\<close>) and their \<open>operator==\<close> are not part of the sources.
  Objects are referred to by their object ID, and two condition variables are the same
  when their IDs are. A condition variable carries its associated mutex, which is null
  (\<open>None\<close>) until the first enqueue has been applied.
\<close>

type_synonym tid_t = nat
type_synonym MCMutex = nat

record MCConditionVariable =
  objectId :: nat
  mutex_of_cond :: "MCMutex option"

definition MCConditionVariable_eq :: "MCConditionVariable \<Rightarrow> MCConditionVariable \<Rightarrow> bool" where
  "MCConditionVariable_eq c1 c2 = (objectId c1 = objectId c2)"

text \<open>
  The transitions of the class hierarchy: \<open>MCMutexTransition\<close> with its subclasses
  (the mutex is a shared pointer, null in \<open>None\<close>), the thread transitions,
  \<open>MCCondEnqueue\<close> with its thread, condition variable and mutex, and
  \<open>MCCondOther\<close> for every other subclass of \<open>MCCondTransition\<close>.
\<close>

datatype MCTransition =
  MCMutexInit tid_t "MCMutex option"
| MCMutexLock tid_t "MCMutex option"
| MCMutexUnlock tid_t "MCMutex option"
| MCThreadCreate tid_t tid_t
| MCThreadStart tid_t
| MCThreadFinish tid_t
| MCThreadJoin tid_t tid_t
| MCCondEnqueue tid_t MCConditionVariable MCMutex
| MCCondOther tid_t MCConditionVariable

text \<open>\<open>std::dynamic_pointer_cast<MCMutexTransition, MCTransition>(other)\<close> is not null.\<close>

fun is_MCMutexTransition :: "MCTransition \<Rightarrow> bool" where
  "is_MCMutexTransition (MCMutexInit _ _) = True"
| "is_MCMutexTransition (MCMutexLock _ _) = True"
| "is_MCMutexTransition (MCMutexUnlock _ _) = True"
| "is_MCMutexTransition _ = False"

text \<open>
  The two methods of \<open>MCCondEnqueue\<close>, on the receiver's fields \<open>this->thread\<close>,
  \<open>this->conditionVariable\<close> and \<open>this->mutex\<close>. \<open>MCTransitionFactory\<close> is not part of the
  sources: its \<open>transitionsCoenabledCommon\<close>, which both methods call, is the
  parameter of that name.
\<close>

fun MCCondEnqueue_coenabledWith ::
    "(MCTransition \<Rightarrow> MCTransition \<Rightarrow> bool) \<Rightarrow> tid_t \<Rightarrow> MCConditionVariable \<Rightarrow> MCMutex
       \<Rightarrow> MCTransition \<Rightarrow> bool" where
  "MCCondEnqueue_coenabledWith transitionsCoenabledCommon this_thread this_conditionVariable this_mutex
       (MCCondEnqueue _ otherConditionVariable _) =
     (\<not> MCConditionVariable_eq otherConditionVariable this_conditionVariable)"
| "MCCondEnqueue_coenabledWith transitionsCoenabledCommon this_thread this_conditionVariable this_mutex other =
     (if is_MCMutexTransition other
      then transitionsCoenabledCommon
             (MCMutexUnlock this_thread (mutex_of_cond this_conditionVariable)) other
      else True)"

fun MCCondEnqueue_dependentWith ::
    "(MCTransition \<Rightarrow> MCTransition \<Rightarrow> bool) \<Rightarrow> tid_t \<Rightarrow> MCConditionVariable \<Rightarrow> MCMutex
       \<Rightarrow> MCTransition \<Rightarrow> bool" where
  "MCCondEnqueue_dependentWith transitionsCoenabledCommon this_thread this_conditionVariable this_mutex
       (MCCondEnqueue _ otherConditionVariable _) =
     MCConditionVariable_eq otherConditionVariable this_conditionVariable"
| "MCCondEnqueue_dependentWith transitionsCoenabledCommon this_thread this_conditionVariable this_mutex
       (MCCondOther _ otherConditionVariable) =
     MCConditionVariable_eq otherConditionVariable this_conditionVariable"
| "MCCondEnqueue_dependentWith transitionsCoenabledCommon this_thread this_conditionVariable this_mutex other =
     (if is_MCMutexTransition other
      then transitionsCoenabledCommon
             (MCMutexUnlock this_thread (mutex_of_cond this_conditionVariable)) other
      else False)"

subsection \<open>The relations between the other transitions\<close>

text \<open>
  Modelled from the spec: the dependency and co-enabledness of mutex and thread
  transitions are decided by code that is not part of the sources. They are registered
  by unordered pairs of variants; the rows are those of the table of section 4.A, each
  row for transitions on the same object, and an unregistered pair is independent and
  co-enabled. A null mutex refers to no object.
\<close>

definition same_mutex :: "MCMutex option \<Rightarrow> MCMutex option \<Rightarrow> bool" where
  "same_mutex m1 m2 = (case m1 of None \<Rightarrow> False | Some a \<Rightarrow> m2 = Some a)"

fun registered_dependency :: "MCTransition \<Rightarrow> MCTransition \<Rightarrow> bool option" where
  "registered_dependency (MCMutexLock _ m1) (MCMutexLock _ m2) = Some (same_mutex m1 m2)"
| "registered_dependency (MCMutexLock _ m1) (MCMutexUnlock _ m2) = Some (same_mutex m1 m2)"
| "registered_dependency (MCMutexLock _ m1) (MCMutexInit _ m2) = Some (same_mutex m1 m2)"
| "registered_dependency (MCThreadCreate _ t1) (MCThreadStart t2) = Some (t1 = t2)"
| "registered_dependency (MCThreadCreate _ t1) (MCThreadJoin _ t2) = Some (t1 = t2)"
| "registered_dependency (MCThreadJoin _ t1) (MCThreadFinish t2) = Some (t1 = t2)"
| "registered_dependency _ _ = None"

fun registered_coenabled :: "MCTransition \<Rightarrow> MCTransition \<Rightarrow> bool option" where
  "registered_coenabled (MCMutexLock _ m1) (MCMutexLock _ m2) = Some (\<not> same_mutex m1 m2)"
| "registered_coenabled (MCMutexLock _ m1) (MCMutexUnlock _ m2) = Some True"
| "registered_coenabled (MCMutexLock _ m1) (MCMutexInit _ m2) = Some (\<not> same_mutex m1 m2)"
| "registered_coenabled (MCThreadCreate _ t1) (MCThreadStart t2) = Some (t1 \<noteq> t2)"
| "registered_coenabled (MCThreadCreate _ t1) (MCThreadJoin _ t2) = Some (t1 \<noteq> t2)"
| "registered_coenabled (MCThreadJoin _ t1) (MCThreadFinish t2) = Some True"
| "registered_coenabled _ _ = None"

definition transitionsDependentCommon :: "MCTransition \<Rightarrow> MCTransition \<Rightarrow> bool" where
  "transitionsDependentCommon t1 t2 =
     (case registered_dependency t1 t2 of
        Some r \<Rightarrow> r
      | None \<Rightarrow> (case registered_dependency t2 t1 of Some r \<Rightarrow> r | None \<Rightarrow> False))"

definition transitionsCoenabledCommon :: "MCTransition \<Rightarrow> MCTransition \<Rightarrow> bool" where
  "transitionsCoenabledCommon t1 t2 =
     (case registered_coenabled t1 t2 of
        Some r \<Rightarrow> r
      | None \<Rightarrow> (case registered_coenabled t2 t1 of Some r \<Rightarrow> r | None \<Rightarrow> True))"

text \<open>
  Modelled from the spec: the dispatch on a pair of transitions. A pair with a
  cond-enqueue is registered once and answered by the method of the cond-enqueue,
  whichever side it stands on; every other pair is answered by the table above.
\<close>

fun depends :: "MCTransition \<Rightarrow> MCTransition \<Rightarrow> bool" where
  "depends (MCCondEnqueue th c m) other =
     MCCondEnqueue_dependentWith transitionsCoenabledCommon th c m other"
| "depends other (MCCondEnqueue th c m) =
     MCCondEnqueue_dependentWith transitionsCoenabledCommon th c m other"
| "depends t1 t2 = transitionsDependentCommon t1 t2"

fun coenabled :: "MCTransition \<Rightarrow> MCTransition \<Rightarrow> bool" where
  "coenabled (MCCondEnqueue th c m) other =
     MCCondEnqueue_coenabledWith transitionsCoenabledCommon th c m other"
| "coenabled other (MCCondEnqueue th c m) =
     MCCondEnqueue_coenabledWith transitionsCoenabledCommon th c m other"
| "coenabled t1 t2 = transitionsCoenabledCommon t1 t2"

subsection \<open>A cond-enqueue and an unlock on one mutex\<close>

text \<open>
  Thread 1 enqueues on condition variable 5 with mutex 7, which is also the mutex the
  condition variable is associated with; thread 2 unlocks mutex 7.
\<close>

definition cond_5_on_mutex_7 :: MCConditionVariable where
  "cond_5_on_mutex_7 = \<lparr>objectId = 5, mutex_of_cond = Some 7\<rparr>"

definition unlock_7_by_thread_2 :: MCTransition where
  "unlock_7_by_thread_2 = MCMutexUnlock 2 (Some 7)"

definition unlock_7_by_thread_1 :: MCTransition where
  "unlock_7_by_thread_1 = MCMutexUnlock 1 (Some 7)"

section \<open>Properties of the thread operations\<close>

text \<open>
  C5. For a non-null operation and a non-null thread, a \<open>THREAD_JOIN\<close> operation is
  enabled exactly when its target thread is not alive; the predicate is false whenever
  the operation or the thread is null.
\<close>

theorem thread_operation_enabled_join:
  "(type top1 = THREAD_JOIN \<longrightarrow>
      thread_operation_enabled (Some top1) (Some thread1) = (\<not> is_alive (thread top1)))
   \<and> thread_operation_enabled None thread' = False
   \<and> thread_operation_enabled top' None = False"
  by (simp add: thread_operation_enabled_def split: option.split)

theorem thread_operation_enabled_join_witness:
  "type \<lparr>type = THREAD_JOIN,
         thread = \<lparr>is_alive = False, start_routine = 0, arg = 0, owner = 7\<rparr>\<rparr> = THREAD_JOIN
   \<and> thread_operation_enabled
        (Some \<lparr>type = THREAD_JOIN,
               thread = \<lparr>is_alive = False, start_routine = 0, arg = 0, owner = 7\<rparr>\<rparr>)
        (Some \<lparr>is_alive = True, start_routine = 0, arg = 0, owner = 1\<rparr>) = True
   \<and> thread_operation_enabled None (Some \<lparr>is_alive = True, start_routine = 0, arg = 0, owner = 1\<rparr>)
        = False"
  using thread_operation_enabled_join
    [of "\<lparr>type = THREAD_JOIN,
          thread = \<lparr>is_alive = False, start_routine = 0, arg = 0, owner = 7\<rparr>\<rparr>"
        "\<lparr>is_alive = True, start_routine = 0, arg = 0, owner = 1\<rparr>"
        "Some \<lparr>is_alive = True, start_routine = 0, arg = 0, owner = 1\<rparr>"]
  by simp

section \<open>Properties of the address map and the callbacks\<close>


text \<open>
  C2, evaluated on the code. On the empty map, observing the address 4096 returns the
  invalid ID and leaves the map empty: no ID is allocated, no link is recorded, and
  \<open>get_model_of\<close> still answers with the invalid ID afterwards.
\<close>

theorem observe_new_address_returns_invalid:
  "observe_remote_process_handle Map.empty 4096 (mutex uninitialized) = (invalid_objid, Map.empty)
   \<and> get_model_of (snd (observe_object Map.empty 4096 (mutex uninitialized))) 4096 = invalid_objid
   \<and> \<not> contains (snd (observe_object Map.empty 4096 (mutex uninitialized))) 4096"
  by (simp add: observe_remote_process_handle_def get_object_for_remote_process_handle_def
        get_model_of_def contains_def observe_object_def)

text \<open>
  C9. When the mutex address posted with a mutex-unlock is not in the address map, the
  unlock callback throws the undefined-behavior error with the message
  "Attempting to lock an uninitialized mutex", exactly what the lock callback throws,
  and the address map is left as it was.
\<close>

theorem mutex_unlock_callback_unknown_mutex:
  "\<not> contains m (memcpy_v_ptr (cnts rmb)) \<Longrightarrow>
     mutex_unlock_callback p rmb m =
       (Inl (undefined_behavior_exception ''Attempting to lock an uninitialized mutex''), m)
     \<and> mutex_lock_callback p rmb m = mutex_unlock_callback p rmb m"
  by (simp add: mutex_unlock_callback_def mutex_lock_callback_def)

theorem mutex_unlock_callback_unknown_mutex_witness:
  "\<not> contains Map.empty (memcpy_v_ptr (cnts \<lparr>cnts = (\<lambda>i. if i = 0 then 16 else 0)\<rparr>))
   \<and> mutex_unlock_callback 2 \<lparr>cnts = (\<lambda>i. if i = 0 then 16 else 0)\<rparr> Map.empty =
       (Inl (undefined_behavior_exception ''Attempting to lock an uninitialized mutex''), Map.empty)"
proof -
  have h: "\<not> contains Map.empty (memcpy_v_ptr (cnts \<lparr>cnts = (\<lambda>i. if i = 0 then 16 else 0)\<rparr>))"
    by (simp add: contains_def get_model_of_def get_object_for_remote_process_handle_def)
  from mutex_unlock_callback_unknown_mutex [OF h, of 2] h show ?thesis
    by simp
qed

section \<open>Properties of the coordinator\<close>





section \<open>Properties of the initial program model\<close>

text \<open>
  C3. The model built at the start of \<open>do_model_checking\<close> has exactly one runner,
  runner 0, which is object 0 in state running; its pending transition is
  \<open>thread_start\<close> of runner 0; no object is a non-runner; the trace is empty.
\<close>

theorem initial_program_model:
  "runner_to_obj_map (state_seq model_for_program_starting_at_main) = [0]
   \<and> visible_objects (state_seq model_for_program_starting_at_main) = [thread_object running]
   \<and> next_steps model_for_program_starting_at_main = [0 \<mapsto> thread_start 0]
   \<and> non_runner_objects (state_seq model_for_program_starting_at_main) = []
   \<and> trace model_for_program_starting_at_main = []"
  by (simp add: model_for_program_starting_at_main_def detached_state_empty_def add_runner_def
        add_object_def set_transition_def program_of_def non_runner_objects_def)

section \<open>Properties of the hash table\<close>

lemma hash_key_3: "hash_key 3 = 16093907957699141"
  by (simp add: hash_key_def Let_def)

lemma hash_key_4: "hash_key 4 = 21458983518151985"
  by (simp add: hash_key_def Let_def)

lemma probe_set_loop_free:
  "unat i < length b \<Longrightarrow> \<not> valid (b ! unat i) \<Longrightarrow> probe_set_loop b n k i = Some (i, False)"
  by (subst probe_set_loop.simps) simp

lemma probe_set_loop_hit:
  "unat i < length b \<Longrightarrow> valid (b ! unat i) \<Longrightarrow> key (b ! unat i) = k \<Longrightarrow>
     probe_set_loop b n k i = Some (i, True)"
  by (subst probe_set_loop.simps) simp

lemma probe_set_loop_step:
  "unat i < length b \<Longrightarrow> valid (b ! unat i) \<Longrightarrow> key (b ! unat i) \<noteq> k \<Longrightarrow>
     probe_set_loop b n k i = probe_set_loop b n k ((i + 1) mod n)"
  by (subst probe_set_loop.simps) simp

lemma probe_get_loop_free:
  "unat i < length b \<Longrightarrow> \<not> valid (b ! unat i) \<Longrightarrow> probe_get_loop b n k i = Some UINT64_MAX"
  by (subst probe_get_loop.simps) simp

lemma probe_get_loop_hit:
  "unat i < length b \<Longrightarrow> valid (b ! unat i) \<Longrightarrow> key (b ! unat i) = k \<Longrightarrow>
     probe_get_loop b n k i = Some i"
  by (subst probe_get_loop.simps) simp

lemma probe_get_loop_step:
  "unat i < length b \<Longrightarrow> valid (b ! unat i) \<Longrightarrow> key (b ! unat i) \<noteq> k \<Longrightarrow>
     probe_get_loop b n k i = probe_get_loop b n k ((i + 1) mod n)"
  by (subst probe_get_loop.simps) simp

lemma replicate_2: "replicate 2 x = [x, x]"
  by (simp add: numeral_2_eq_2)

lemma replicate_4: "replicate 4 x = [x, x, x, x]"
  by (simp add: eval_nat_numeral)

lemma take_2: "take 2 (a # b # xs) = [a, b]"
  by (simp add: numeral_2_eq_2)

lemma list_update_2: "(a # b # c # xs)[2 := y] = a # b # y # xs"
  by (simp add: numeral_2_eq_2)

lemma nth_2: "(a # b # c # xs) ! 2 = c"
  by (simp add: numeral_2_eq_2)

lemmas hash_table_eval =
  hash_table_set_def hash_table_unforced_grow_def hash_table_probe_set_def
  hash_table_get_def hash_table_probe_get_def hash_table_remove_def
  hash_table_map_key_def hash_table_num_slots_def sizeof_hash_table_entry_def
  hash_table_rehash_def hash_table_create_def hash_table_invalid_entry_def UINT64_MAX_def
  Let_def hash_key_3 hash_key_4
  probe_set_loop_free probe_set_loop_hit probe_set_loop_step
  probe_get_loop_free probe_get_loop_hit probe_get_loop_step
  replicate_2 replicate_4 take_2 list_update_2 nth_2
  table_3_def table_3_4_def table_3_4_without_4_def table_3_4_4_def

lemma set_first_key:
  "0 < rf \<Longrightarrow> hash_table_set rf hash_table_create 3 v1 = Some (table_3 v1)"
  by (simp add: hash_table_eval)

lemma set_second_key:
  "rf \<le> 1 \<Longrightarrow> hash_table_set rf (table_3 v1) 4 v2 = Some (table_3_4 v1 v2)"
  by (simp add: hash_table_eval)

lemma get_both_keys:
  "hash_table_get (table_3_4 v1 v2) 3 = Some v1 \<and> hash_table_get (table_3_4 v1 v2) 4 = Some v2"
  by (simp add: hash_table_eval)

text \<open>
  C7. \<open>hash_table_remove\<close> takes the entry to sit at its home slot: on every table with
  storage it invalidates the slot \<open>hash_key(key) mod num_slots\<close> and decrements
  \<open>count\<close>, whatever that slot holds. With \<open>REHASH_FACTOR\<close> in (0, 1], inserting 3
  and then 4 into a new table displaces key 4 by linear probing (home slot 1, stored in
  slot 0). Removing key 4 then decrements \<open>count\<close> from 2 to 1 and destroys the entry
  of key 3, whose lookup turns from \<open>v1\<close> to \<open>NULL\<close>, while the entry of key 4 stays
  in the array.
\<close>

theorem hash_table_remove_assumes_home_slot:
  assumes "0 < rf" and "rf \<le> 1"
  shows "(\<forall>ref k b. base ref = Some b \<longrightarrow>
            hash_table_remove ref k =
              ref\<lparr>base := Some (b[unat (hash_key k mod hash_table_num_slots ref)
                                      := hash_table_invalid_entry]),
                  count := count ref - 1\<rparr>)
    \<and> hash_table_set rf hash_table_create 3 v1 = Some (table_3 v1)
    \<and> hash_table_set rf (table_3 v1) 4 v2 = Some (table_3_4 v1 v2)
    \<and> hash_table_map_key (table_3_4 v1 v2) 4 = 1
    \<and> base (table_3_4 v1 v2) =
         Some [\<lparr>valid = True, key = 4, value' = v2\<rparr>, \<lparr>valid = True, key = 3, value' = v1\<rparr>]
    \<and> hash_table_get (table_3_4 v1 v2) 3 = Some v1
    \<and> hash_table_get (table_3_4 v1 v2) 4 = Some v2
    \<and> hash_table_remove (table_3_4 v1 v2) 4 = table_3_4_without_4 v2
    \<and> count (table_3_4 v1 v2) = 2
    \<and> count (table_3_4_without_4 v2) = 1
    \<and> base (table_3_4_without_4 v2) =
         Some [\<lparr>valid = True, key = 4, value' = v2\<rparr>, hash_table_invalid_entry]
    \<and> hash_table_get (table_3_4_without_4 v2) 3 = Some 0
    \<and> hash_table_get (table_3_4_without_4 v2) 4 = Some 0"
proof -
  have general: "\<forall>ref k b. base ref = Some b \<longrightarrow>
            hash_table_remove ref k =
              ref\<lparr>base := Some (b[unat (hash_key k mod hash_table_num_slots ref)
                                      := hash_table_invalid_entry]),
                  count := count ref - 1\<rparr>"
    by (simp add: hash_table_remove_def hash_table_map_key_def Let_def)
  have home: "hash_table_map_key (table_3_4 v1 v2) 4 = 1"
    by (simp add: hash_table_eval)
  have removed: "hash_table_remove (table_3_4 v1 v2) 4 = table_3_4_without_4 v2"
    by (simp add: hash_table_eval)
  have after: "hash_table_get (table_3_4_without_4 v2) 3 = Some 0
               \<and> hash_table_get (table_3_4_without_4 v2) 4 = Some 0"
    by (simp add: hash_table_eval)
  have fields: "base (table_3_4 v1 v2) =
         Some [\<lparr>valid = True, key = 4, value' = v2\<rparr>, \<lparr>valid = True, key = 3, value' = v1\<rparr>]
    \<and> count (table_3_4 v1 v2) = 2
    \<and> count (table_3_4_without_4 v2) = 1
    \<and> base (table_3_4_without_4 v2) =
         Some [\<lparr>valid = True, key = 4, value' = v2\<rparr>, hash_table_invalid_entry]"
    by (simp add: table_3_4_def table_3_4_without_4_def)
  from general set_first_key [OF assms(1)] set_second_key [OF assms(2)] home get_both_keys
    removed after fields
  show ?thesis by blast
qed

theorem hash_table_remove_assumes_home_slot_witness:
  "(0::real) < 1 / 2 \<and> (1 / 2 :: real) \<le> 1
   \<and> hash_table_set (1 / 2) hash_table_create 3 4096 = Some (table_3 4096)
   \<and> hash_table_set (1 / 2) (table_3 4096) 4 8192 = Some (table_3_4 4096 8192)
   \<and> hash_table_get (table_3_4 4096 8192) 3 = Some 4096
   \<and> hash_table_remove (table_3_4 4096 8192) 4 = table_3_4_without_4 8192
   \<and> count (table_3_4_without_4 8192) = count (table_3_4 4096 8192) - 1
   \<and> hash_table_get (table_3_4_without_4 8192) 3 = Some 0"
proof -
  have h1: "(0::real) < 1 / 2" and h2: "(1 / 2 :: real) \<le> 1"
    by simp_all
  from hash_table_remove_assumes_home_slot [OF h1 h2, of 4096 8192] h1 h2
  show ?thesis by simp
qed

text \<open>
  C10, evaluated on the code. With \<open>REHASH_FACTOR\<close> in (0, 1], after inserting 3 and
  then 4 the key 4 is present with value \<open>v2\<close> and \<open>count\<close> is 2. Setting key 4 again
  grows the table; the rehash writes both entries to slot 1 and loses key 4, so the new
  value is inserted as a new entry and \<open>count\<close> becomes 3.
\<close>

theorem hash_table_set_present_key_grows_count:
  assumes "0 < rf" and "rf \<le> 1"
  shows "hash_table_set rf hash_table_create 3 v1 = Some (table_3 v1)
    \<and> hash_table_set rf (table_3 v1) 4 v2 = Some (table_3_4 v1 v2)
    \<and> hash_table_get (table_3_4 v1 v2) 4 = Some v2
    \<and> count (table_3_4 v1 v2) = 2
    \<and> hash_table_set rf (table_3_4 v1 v2) 4 v3 = Some (table_3_4_4 v1 v3)
    \<and> count (table_3_4_4 v1 v3) = 3
    \<and> hash_table_get (table_3_4_4 v1 v3) 4 = Some v3"
proof -
  have third: "hash_table_set rf (table_3_4 v1 v2) 4 v3 = Some (table_3_4_4 v1 v3)"
    using assms(2) by (simp add: hash_table_eval)
  have counts: "count (table_3_4 v1 v2) = 2 \<and> count (table_3_4_4 v1 v3) = 3"
    by (simp add: table_3_4_def table_3_4_4_def)
  have found: "hash_table_get (table_3_4_4 v1 v3) 4 = Some v3"
    by (simp add: hash_table_eval)
  from set_first_key [OF assms(1)] set_second_key [OF assms(2)] get_both_keys third counts found
  show ?thesis by blast
qed

theorem hash_table_set_present_key_grows_count_witness:
  "(0::real) < 1 / 2 \<and> (1 / 2 :: real) \<le> 1
   \<and> hash_table_get (table_3_4 4096 8192) 4 = Some 8192
   \<and> hash_table_set (1 / 2) (table_3_4 4096 8192) 4 12288 = Some (table_3_4_4 4096 12288)
   \<and> count (table_3_4_4 4096 12288) = count (table_3_4 4096 8192) + 1"
proof -
  have h1: "(0::real) < 1 / 2" and h2: "(1 / 2 :: real) \<le> 1"
    by simp_all
  from hash_table_set_present_key_grows_count [OF h1 h2, of 4096 8192 12288] h1 h2
  show ?thesis by simp
qed

section \<open>Properties of the command line\<close>

lemma option_loop_help1:
  "option_loop strtoul strtol cfg (''--help'' # rest) = Exit 1 [(stderr, usage_text)]"
  by (subst option_loop.simps) (simp add: char_at_def)

lemma option_loop_help2:
  "option_loop strtoul strtol cfg (''-h'' # rest) = Exit 1 [(stderr, usage_text)]"
  by (subst option_loop.simps) (simp add: char_at_def)

lemma option_loop_unrecognized:
  "char_at a 0 = CHR ''-'' \<Longrightarrow>
   a \<notin> {''--max-depth-per-thread'', ''-m'', ''--record'', ''-r'', ''--first-deadlock'',
         ''--first'', ''-f'', ''--print-at-traceId'', ''-p'', ''--help'', ''-h''} \<Longrightarrow>
   \<not> (char_at a 1 = CHR ''m'' \<and> isdigit (char_at a 2)) \<Longrightarrow>
   \<not> (char_at a 1 = CHR ''p'' \<and> isdigit (char_at a 2)) \<Longrightarrow>
     option_loop strtoul strtol cfg (a # rest) =
       Exit 1 [(stdout, ''mcmini: unrecognized option: '' @ a @ [CHR 0x0A])]"
  by (subst option_loop.simps) (simp, blast)

text \<open>
  The runs that end with a diagnostic. At any point of the option loop, the option
  \<open>--help\<close> or \<open>-h\<close> prints the usage text and exits with code 1, and an argument
  that starts with a dash and is none of the recognised options prints "unrecognized
  option" and exits with code 1. When the option loop runs to its end and no argument
  is left, or \<open>stat\<close> fails on the next one, \<open>main_cpp\<close> prints the missing-target
  text and exits with code 1. With no arguments at all \<open>main_cpp\<close> behaves as with
  \<open>--help\<close>.
\<close>

lemma main_cpp_diagnosed_cases:
  "(a = ''--help'' \<or> a = ''-h'' \<longrightarrow>
      option_loop strtoul strtol cfg (a # rest) = Exit 1 [(stderr, usage_text)]
      \<and> main_cpp stat strtoul strtol cfg (a # rest) = Exit 1 [(stderr, usage_text)])
   \<and> (char_at b 0 = CHR ''-''
       \<and> b \<notin> {''--max-depth-per-thread'', ''-m'', ''--record'', ''-r'', ''--first-deadlock'',
               ''--first'', ''-f'', ''--print-at-traceId'', ''-p'', ''--help'', ''-h''}
       \<and> \<not> (char_at b 1 = CHR ''m'' \<and> isdigit (char_at b 2))
       \<and> \<not> (char_at b 1 = CHR ''p'' \<and> isdigit (char_at b 2)) \<longrightarrow>
      option_loop strtoul strtol cfg (b # rest) =
        Exit 1 [(stdout, ''mcmini: unrecognized option: '' @ b @ [CHR 0x0A])]
      \<and> main_cpp stat strtoul strtol cfg (b # rest) =
        Exit 1 [(stdout, ''mcmini: unrecognized option: '' @ b @ [CHR 0x0A])])
   \<and> (args \<noteq> [] \<and> option_loop strtoul strtol cfg args = Continue cfg' cur
       \<and> (cur = [] \<or> \<not> stat (hd cur)) \<longrightarrow>
      main_cpp stat strtoul strtol cfg args = Exit 1 [(stderr, missing_target_text)])
   \<and> main_cpp stat strtoul strtol cfg [] = Exit 1 [(stderr, usage_text)]
   \<and> main_cpp stat strtoul strtol cfg [] = main_cpp stat strtoul strtol cfg [''--help'']"
proof -
  have help_case: "a = ''--help'' \<or> a = ''-h'' \<longrightarrow>
      option_loop strtoul strtol cfg (a # rest) = Exit 1 [(stderr, usage_text)]
      \<and> main_cpp stat strtoul strtol cfg (a # rest) = Exit 1 [(stderr, usage_text)]"
    by (auto simp: main_cpp_def target_check_def option_loop_help1 option_loop_help2)
  have unrec: "char_at b 0 = CHR ''-''
       \<and> b \<notin> {''--max-depth-per-thread'', ''-m'', ''--record'', ''-r'', ''--first-deadlock'',
               ''--first'', ''-f'', ''--print-at-traceId'', ''-p'', ''--help'', ''-h''}
       \<and> \<not> (char_at b 1 = CHR ''m'' \<and> isdigit (char_at b 2))
       \<and> \<not> (char_at b 1 = CHR ''p'' \<and> isdigit (char_at b 2)) \<longrightarrow>
      option_loop strtoul strtol cfg (b # rest) =
        Exit 1 [(stdout, ''mcmini: unrecognized option: '' @ b @ [CHR 0x0A])]
      \<and> main_cpp stat strtoul strtol cfg (b # rest) =
        Exit 1 [(stdout, ''mcmini: unrecognized option: '' @ b @ [CHR 0x0A])]"
  proof
    assume h: "char_at b 0 = CHR ''-''
       \<and> b \<notin> {''--max-depth-per-thread'', ''-m'', ''--record'', ''-r'', ''--first-deadlock'',
               ''--first'', ''-f'', ''--print-at-traceId'', ''-p'', ''--help'', ''-h''}
       \<and> \<not> (char_at b 1 = CHR ''m'' \<and> isdigit (char_at b 2))
       \<and> \<not> (char_at b 1 = CHR ''p'' \<and> isdigit (char_at b 2))"
    then have "option_loop strtoul strtol cfg (b # rest) =
        Exit 1 [(stdout, ''mcmini: unrecognized option: '' @ b @ [CHR 0x0A])]"
      by (simp add: option_loop_unrecognized)
    then show "option_loop strtoul strtol cfg (b # rest) =
        Exit 1 [(stdout, ''mcmini: unrecognized option: '' @ b @ [CHR 0x0A])]
      \<and> main_cpp stat strtoul strtol cfg (b # rest) =
        Exit 1 [(stdout, ''mcmini: unrecognized option: '' @ b @ [CHR 0x0A])]"
      by (simp add: main_cpp_def target_check_def)
  qed
  have missing: "args \<noteq> [] \<and> option_loop strtoul strtol cfg args = Continue cfg' cur
       \<and> (cur = [] \<or> \<not> stat (hd cur)) \<longrightarrow>
      main_cpp stat strtoul strtol cfg args = Exit 1 [(stderr, missing_target_text)]"
    by (cases cur) (auto simp: main_cpp_def target_check_def)
  have noargs: "main_cpp stat strtoul strtol cfg [] = Exit 1 [(stderr, usage_text)]"
    by (simp add: main_cpp_def target_check_def option_loop_help1)
  have as_help: "main_cpp stat strtoul strtol cfg [] = main_cpp stat strtoul strtol cfg [''--help'']"
    by (simp add: main_cpp_def)
  show ?thesis
    by (intro conjI help_case unrec missing noargs as_help)
qed

text \<open>
  C8, evaluated on the code. An invocation whose last option lacks its value names no
  target executable, yet it does not reach the missing-target check: for \<open>-m5\<close>,
  \<open>-m\<close>, \<open>--max-depth-per-thread\<close>, \<open>-r\<close> and \<open>-p\<close> as the only argument the
  option loop hands the terminating null pointer of \<open>argv\<close> to \<open>strtoul\<close>, and for
  \<open>-p5 --help\<close> it reads \<open>cur_arg[2]\<close>, the null pointer, before \<open>--help\<close> is looked
  at. No diagnostic is printed and the run does not exit with code 1.
\<close>

theorem main_cpp_option_without_value_undefined:
  "main_cpp stat strtoul strtol cfg [''-m5''] = Undefined_read
   \<and> main_cpp stat strtoul strtol cfg [''-m''] = Undefined_read
   \<and> main_cpp stat strtoul strtol cfg [''--max-depth-per-thread''] = Undefined_read
   \<and> main_cpp stat strtoul strtol cfg [''-r''] = Undefined_read
   \<and> main_cpp stat strtoul strtol cfg [''-p''] = Undefined_read
   \<and> main_cpp stat strtoul strtol cfg [''-p5'', ''--help''] = Undefined_read"
  by (simp add: main_cpp_def target_check_def option_loop.simps char_at_def isdigit_def)

theorem main_cpp_option_without_value_undefined_witness:
  "main_cpp no_such_file strtoul_zero strtol_zero config_default [''-m5''] = Undefined_read
   \<and> main_cpp no_such_file strtoul_zero strtol_zero config_default [''-r''] = Undefined_read"
  using main_cpp_option_without_value_undefined
          [of no_such_file strtoul_zero strtol_zero config_default]
  by simp

section \<open>Properties of the dependency and co-enabledness relations\<close>

lemma transitionsDependentCommon_sym:
  "transitionsDependentCommon t1 t2 = transitionsDependentCommon t2 t1"
  by (cases t1; cases t2)
     (auto simp: transitionsDependentCommon_def same_mutex_def split: option.splits)

lemma transitionsCoenabledCommon_sym:
  "transitionsCoenabledCommon t1 t2 = transitionsCoenabledCommon t2 t1"
  by (cases t1; cases t2)
     (auto simp: transitionsCoenabledCommon_def same_mutex_def split: option.splits)

lemma MCConditionVariable_eq_sym:
  "MCConditionVariable_eq c1 c2 = MCConditionVariable_eq c2 c1"
  by (auto simp: MCConditionVariable_eq_def)

lemma depends_sym: "depends a b = depends b a"
  by (cases a; cases b)
     (simp_all add: transitionsDependentCommon_sym MCConditionVariable_eq_sym)

lemma coenabled_sym: "coenabled a b = coenabled b a"
  by (cases a; cases b)
     (simp_all add: transitionsCoenabledCommon_sym MCConditionVariable_eq_sym)

text \<open>
  C6. Dependency and co-enabledness are symmetric on every pair of transitions, the
  pairs of a cond-enqueue with a mutex operation and of two cond-enqueues among them.
\<close>

theorem depends_coenabled_symmetric:
  "depends a b = depends b a \<and> coenabled a b = coenabled b a"
  using depends_sym [of a b] coenabled_sym [of a b] by simp

theorem depends_coenabled_symmetric_witness:
  "depends (MCCondEnqueue 1 cond_5_on_mutex_7 7) (MCCondEnqueue 2 cond_5_on_mutex_7 7)
     = depends (MCCondEnqueue 2 cond_5_on_mutex_7 7) (MCCondEnqueue 1 cond_5_on_mutex_7 7)
   \<and> coenabled unlock_7_by_thread_2 (MCCondEnqueue 1 cond_5_on_mutex_7 7)
     = coenabled (MCCondEnqueue 1 cond_5_on_mutex_7 7) unlock_7_by_thread_2"
  using depends_coenabled_symmetric
          [of "MCCondEnqueue 1 cond_5_on_mutex_7 7" "MCCondEnqueue 2 cond_5_on_mutex_7 7"]
        depends_coenabled_symmetric
          [of unlock_7_by_thread_2 "MCCondEnqueue 1 cond_5_on_mutex_7 7"]
  by simp

text \<open>
  C4, evaluated on the code. Against a mutex operation, \<open>dependentWith\<close> of a
  cond-enqueue returns what \<open>transitionsCoenabledCommon\<close> returns for the unlock of
  the condition variable's mutex, whatever that helper is: it answers with the
  co-enabledness of the unlock, not with its dependency. For thread 1 enqueueing on
  condition variable 5 with mutex 7 and thread 2 unlocking mutex 7, the cond-enqueue
  is dependent with the unlock, while unlock(7) and unlock(7) are co-enabled and
  independent. The co-enabledness of the cond-enqueue is that of the unlock.
\<close>

theorem cond_enqueue_dependency_is_coenabledness:
  "MCCondEnqueue_dependentWith helper th c m (MCMutexUnlock th' m')
     = helper (MCMutexUnlock th (mutex_of_cond c)) (MCMutexUnlock th' m')
   \<and> MCCondEnqueue_dependentWith helper th c m (MCMutexLock th' m')
     = helper (MCMutexUnlock th (mutex_of_cond c)) (MCMutexLock th' m')
   \<and> MCCondEnqueue_dependentWith helper th c m (MCMutexInit th' m')
     = helper (MCMutexUnlock th (mutex_of_cond c)) (MCMutexInit th' m')
   \<and> MCCondEnqueue_dependentWith transitionsCoenabledCommon 1 cond_5_on_mutex_7 7
        unlock_7_by_thread_2 = True
   \<and> transitionsCoenabledCommon unlock_7_by_thread_1 unlock_7_by_thread_2 = True
   \<and> transitionsDependentCommon unlock_7_by_thread_1 unlock_7_by_thread_2 = False
   \<and> depends (MCCondEnqueue 1 cond_5_on_mutex_7 7) unlock_7_by_thread_2 = True
   \<and> depends unlock_7_by_thread_1 unlock_7_by_thread_2 = False
   \<and> coenabled (MCCondEnqueue 1 cond_5_on_mutex_7 7) unlock_7_by_thread_2
     = coenabled unlock_7_by_thread_1 unlock_7_by_thread_2"
  by (simp add: cond_5_on_mutex_7_def unlock_7_by_thread_1_def unlock_7_by_thread_2_def
        transitionsCoenabledCommon_def transitionsDependentCommon_def)

end
